theory Spec2Isabelle
  imports Main
begin

section \<open>JavaScript primitives used by the i18n router\<close>

text \<open>
  Strings are modelled as \<^typ>\<open>string\<close>. The separators the router splits on
  (\<open>/\<close> and \<open>:\<close>) are ASCII, and locale identifiers and host names are ASCII, so
  \<open>toLowerCase\<close> is modelled on the letters \<open>A\<close> to \<open>Z\<close>; every other character is
  left as it is.

  The only exception the router can raise is the \<open>TypeError\<close> of calling a method on
  \<open>undefined\<close>.
\<close>

datatype error = TypeError

definition toLowerCase_char :: "char \<Rightarrow> char" where
  "toLowerCase_char c =
     (case map_of (zip ''ABCDEFGHIJKLMNOPQRSTUVWXYZ'' ''abcdefghijklmnopqrstuvwxyz'') c of
        None \<Rightarrow> c
      | Some l \<Rightarrow> l)"

definition toLowerCase :: "string \<Rightarrow> string" where
  "toLowerCase s = map toLowerCase_char s"

text \<open>
  \<open>s.split(sep)\<close> for a one-character separator: the pieces between the occurrences of
  \<open>sep\<close>, so that \<open>"".split("/")\<close> is \<open>[""]\<close> and \<open>"/".split("/")\<close> is \<open>["", ""]\<close>.
\<close>

fun js_split :: "char \<Rightarrow> string \<Rightarrow> string list" where
  "js_split sep [] = [[]]"
| "js_split sep (c # cs) =
     (if c = sep then [] # js_split sep cs
      else (case js_split sep cs of
              [] \<Rightarrow> [[c]]
            | w # ws \<Rightarrow> (c # w) # ws))"

text \<open>\<open>s.split(sep, lim)\<close> keeps the first \<open>lim\<close> pieces.\<close>

definition js_split_limit :: "char \<Rightarrow> nat \<Rightarrow> string \<Rightarrow> string list" where
  "js_split_limit sep lim s = take lim (js_split sep s)"

text \<open>\<open>xs[i]\<close> on an array: \<open>undefined\<close> out of range.\<close>

definition js_index :: "'a list \<Rightarrow> nat \<Rightarrow> 'a option" where
  "js_index xs i = (if i < length xs then Some (xs ! i) else None)"

text \<open>\<open>a ?? b\<close> where \<open>b\<close> may itself be \<open>undefined\<close>.\<close>

definition nullish :: "'a option \<Rightarrow> 'a option \<Rightarrow> 'a option" where
  "nullish a b = (case a of None \<Rightarrow> b | Some v \<Rightarrow> Some v)"

text \<open>A \<open>string | undefined\<close> value interpolated into a template literal.\<close>

definition js_template :: "string option \<Rightarrow> string" where
  "js_template v = (case v of None \<Rightarrow> ''undefined'' | Some s \<Rightarrow> s)"

section \<open>Data model\<close>

record DomainLocale =
  domain :: string
  defaultLocale :: string
  locales :: "string list option"
  http :: "bool option"

record i18nConfig =
  locales :: "string list"
  defaultLocale :: string
  localeDetection :: "bool option"
  domains :: "DomainLocale list option"

record InternalEvent =
  rawPath :: string
  url :: string
  headers :: "string \<rightharpoonup> string"
  cookies :: "string \<rightharpoonup> string"

record InternalResult =
  type :: string
  statusCode :: nat
  headers :: "string \<rightharpoonup> string"
  body :: "nat list"
  isBase64Encoded :: bool

text \<open>
  Modelled from the spec: \<open>emptyReadableStream\<close> of \<open>utils/stream.js\<close> is not part of the
  sources at hand; the spec describes it as a zero-length response body. A body is
  modelled by the list of its bytes.
\<close>

definition emptyReadableStream :: "nat list" where
  "emptyReadableStream = []"

text \<open>
  Two collaborators are imported from modules that are not part of the sources at hand
  and are parameters of the model, assumed to return without raising:
  \<^item> \<open>acceptLanguage(header, locales)\<close> of \<open>./accept-header\<close>, the Language Matcher, of type
    \<^typ>\<open>string option \<Rightarrow> string list \<Rightarrow> string option\<close>;
  \<^item> \<open>constructNextUrl(url, path)\<close> of \<open>../util.js\<close>, of type
    \<^typ>\<open>string \<Rightarrow> string \<Rightarrow> string\<close>.

  The process-wide \<open>NextConfig.i18n\<close> is the explicit argument \<open>nc_i18n\<close>, \<open>None\<close> when
  i18n is not configured. The call of \<open>debug\<close> only logs and is left out.
\<close>

section \<open>The router\<close>

definition isLocalizedPath :: "i18nConfig option \<Rightarrow> string \<Rightarrow> error + bool" where
  "isLocalizedPath nc_i18n path =
     (case nc_i18n of
        None \<Rightarrow> Inr False
      | Some i18n \<Rightarrow>
          (case js_index (js_split CHR ''/'' path) 1 of
             None \<Rightarrow> Inl TypeError
           | Some segment \<Rightarrow> Inr (toLowerCase segment \<in> set (i18nConfig.locales i18n))))"

definition getLocaleFromCookie ::
  "i18nConfig option \<Rightarrow> (string \<rightharpoonup> string) \<Rightarrow> string option" where
  "getLocaleFromCookie nc_i18n cks =
     (case map_option toLowerCase (cks ''NEXT_LOCALE'') of
        None \<Rightarrow> None
      | Some nextLocale \<Rightarrow>
          if nextLocale = [] then None
          else (case nc_i18n of
                  None \<Rightarrow> None
                | Some i18n \<Rightarrow>
                    find (\<lambda>locale. nextLocale = toLowerCase locale) (i18nConfig.locales i18n)))"

text \<open>The \<open>for ... of\<close> loop of \<open>detectDomainLocale\<close>, returning at the first match.\<close>

fun detectDomainLocale_loop ::
  "string option \<Rightarrow> string option \<Rightarrow> DomainLocale list \<Rightarrow> error + DomainLocale option" where
  "detectDomainLocale_loop hostname lowercasedLocale [] = Inr None"
| "detectDomainLocale_loop hostname lowercasedLocale (entry # rest) =
     (case js_index (js_split_limit CHR '':'' 1 (DomainLocale.domain entry)) 0 of
        None \<Rightarrow> Inl TypeError
      | Some host \<Rightarrow>
          (let domainHostname = toLowerCase host in
           if hostname = Some domainHostname \<or>
              lowercasedLocale = Some (toLowerCase (DomainLocale.defaultLocale entry)) \<or>
              (case DomainLocale.locales entry of
                 None \<Rightarrow> False
               | Some ls \<Rightarrow> list_ex (\<lambda>locale. lowercasedLocale = Some (toLowerCase locale)) ls)
           then Inr (Some entry)
           else detectDomainLocale_loop hostname lowercasedLocale rest))"

definition detectDomainLocale ::
  "i18nConfig option \<Rightarrow> string option \<Rightarrow> string option \<Rightarrow> error + DomainLocale option" where
  "detectDomainLocale nc_i18n hostname detectedLocale =
     (case (case nc_i18n of None \<Rightarrow> None | Some i18n \<Rightarrow> domains i18n) of
        None \<Rightarrow> Inr None
      | Some ds \<Rightarrow>
          detectDomainLocale_loop hostname (map_option toLowerCase detectedLocale) ds)"

definition detectLocale ::
  "(string option \<Rightarrow> string list \<Rightarrow> string option) \<Rightarrow> i18nConfig option \<Rightarrow>
     InternalEvent \<Rightarrow> i18nConfig \<Rightarrow> error + string" where
  "detectLocale acceptLanguage nc_i18n internalEvent i18n =
     (case detectDomainLocale nc_i18n (InternalEvent.headers internalEvent ''host'') None of
        Inl e \<Rightarrow> Inl e
      | Inr domainLocale \<Rightarrow>
          if localeDetection i18n = Some False
          then Inr (case domainLocale of
                      None \<Rightarrow> i18nConfig.defaultLocale i18n
                    | Some d \<Rightarrow> DomainLocale.defaultLocale d)
          else
            (let cookiesLocale = getLocaleFromCookie nc_i18n (cookies internalEvent);
                 preferredLocale =
                   acceptLanguage (InternalEvent.headers internalEvent ''accept-language'')
                     (i18nConfig.locales i18n)
             in Inr (case nullish
                            (nullish (map_option DomainLocale.defaultLocale domainLocale)
                               cookiesLocale)
                            preferredLocale of
                       None \<Rightarrow> i18nConfig.defaultLocale i18n
                     | Some l \<Rightarrow> l)))"

definition localizePath ::
  "(string option \<Rightarrow> string list \<Rightarrow> string option) \<Rightarrow> i18nConfig option \<Rightarrow>
     InternalEvent \<Rightarrow> error + string" where
  "localizePath acceptLanguage nc_i18n internalEvent =
     (case nc_i18n of
        None \<Rightarrow> Inr (rawPath internalEvent)
      | Some i18n \<Rightarrow>
          (case isLocalizedPath nc_i18n (rawPath internalEvent) of
             Inl e \<Rightarrow> Inl e
           | Inr localized \<Rightarrow>
               if localized then Inr (rawPath internalEvent)
               else (case detectLocale acceptLanguage nc_i18n internalEvent i18n of
                       Inl e \<Rightarrow> Inl e
                     | Inr detectedLocale \<Rightarrow>
                         Inr (''/'' @ detectedLocale @ rawPath internalEvent))))"

text \<open>\<open>false\<close> is \<open>None\<close>, a redirect is \<open>Some\<close> of the result object.\<close>

definition handleLocaleRedirect ::
  "(string option \<Rightarrow> string list \<Rightarrow> string option) \<Rightarrow> (string \<Rightarrow> string \<Rightarrow> string) \<Rightarrow>
     i18nConfig option \<Rightarrow> InternalEvent \<Rightarrow> error + InternalResult option" where
  "handleLocaleRedirect acceptLanguage constructNextUrl nc_i18n internalEvent =
     (case nc_i18n of
        None \<Rightarrow> Inr None
      | Some i18n \<Rightarrow>
          if localeDetection i18n = Some False \<or> rawPath internalEvent \<noteq> ''/'' then Inr None
          else
            (let preferredLocale =
                   acceptLanguage (InternalEvent.headers internalEvent ''accept-language'')
                     (i18nConfig.locales i18n)
             in case detectLocale acceptLanguage nc_i18n internalEvent i18n of
                  Inl e \<Rightarrow> Inl e
                | Inr detectedLocale \<Rightarrow>
             (case detectDomainLocale nc_i18n (InternalEvent.headers internalEvent ''host'') None of
                  Inl e \<Rightarrow> Inl e
                | Inr domainLocale \<Rightarrow>
             (case detectDomainLocale nc_i18n None preferredLocale of
                  Inl e \<Rightarrow> Inl e
                | Inr preferredDomain \<Rightarrow>
             (case (case (domainLocale, preferredDomain) of
                      (Some dl, Some pd) \<Rightarrow>
                        (let isPDomain = (DomainLocale.domain pd = DomainLocale.domain dl);
                             isPLocale = (Some (DomainLocale.defaultLocale pd) = preferredLocale)
                         in if \<not> isPDomain \<or> \<not> isPLocale
                            then (let scheme = ''http'' @ (if http pd = Some True then '''' else ''s'');
                                      rlocale = (if isPLocale then '''' else js_template preferredLocale)
                                  in Some \<lparr>type = ''core'',
                                           statusCode = 307,
                                           headers =
                                             [''Location'' \<mapsto>
                                                scheme @ ''://'' @ DomainLocale.domain pd @ ''/'' @ rlocale],
                                           body = emptyReadableStream,
                                           isBase64Encoded = False\<rparr>)
                            else None)
                    | _ \<Rightarrow> None) of
                Some redirect \<Rightarrow> Inr (Some redirect)
              | None \<Rightarrow>
                  (let defaultLocale =
                         (case domainLocale of
                            None \<Rightarrow> i18nConfig.defaultLocale i18n
                          | Some d \<Rightarrow> DomainLocale.defaultLocale d)
                   in if toLowerCase detectedLocale \<noteq> toLowerCase defaultLocale
                      then Inr (Some \<lparr>type = ''core'',
                                      statusCode = 307,
                                      headers =
                                        [''Location'' \<mapsto>
                                           constructNextUrl (url internalEvent) (''/'' @ detectedLocale)],
                                      body = emptyReadableStream,
                                      isBase64Encoded = False\<rparr>)
                      else Inr None))))))"

section \<open>Reference definitions\<close>

text \<open>
  The domain resolver as a search: an entry matches when the host name, taken as it was
  passed, is the entry's domain without its port and lowercased, or when the lowercased
  locale is the entry's lowercased default locale or one of its lowercased locales.
\<close>

definition stripPort :: "string \<Rightarrow> string" where
  "stripPort d = takeWhile (\<lambda>c. c \<noteq> CHR '':'') d"

definition domainMatches :: "string option \<Rightarrow> string option \<Rightarrow> DomainLocale \<Rightarrow> bool" where
  "domainMatches hostname detectedLocale entry \<longleftrightarrow>
     hostname = Some (toLowerCase (stripPort (DomainLocale.domain entry))) \<or>
     map_option toLowerCase detectedLocale =
       Some (toLowerCase (DomainLocale.defaultLocale entry)) \<or>
     (\<exists>locale \<in> set (case DomainLocale.locales entry of None \<Rightarrow> [] | Some ls \<Rightarrow> ls).
        map_option toLowerCase detectedLocale = Some (toLowerCase locale))"

definition detectDomainLocale_find ::
  "i18nConfig option \<Rightarrow> string option \<Rightarrow> string option \<Rightarrow> DomainLocale option" where
  "detectDomainLocale_find nc_i18n hostname detectedLocale =
     (case nc_i18n of
        None \<Rightarrow> None
      | Some i18n \<Rightarrow>
          (case domains i18n of
             None \<Rightarrow> None
           | Some ds \<Rightarrow> find (domainMatches hostname detectedLocale) ds))"

text \<open>
  The domain resolver in the words of the specification, which lowercases the host name
  before comparing it.
\<close>

definition domainMatches_spec :: "string option \<Rightarrow> string option \<Rightarrow> DomainLocale \<Rightarrow> bool" where
  "domainMatches_spec hostname detectedLocale entry \<longleftrightarrow>
     map_option toLowerCase hostname =
       Some (toLowerCase (stripPort (DomainLocale.domain entry))) \<or>
     map_option toLowerCase detectedLocale =
       Some (toLowerCase (DomainLocale.defaultLocale entry)) \<or>
     (\<exists>locale \<in> set (case DomainLocale.locales entry of None \<Rightarrow> [] | Some ls \<Rightarrow> ls).
        map_option toLowerCase detectedLocale = Some (toLowerCase locale))"

definition detectDomainLocale_spec ::
  "i18nConfig option \<Rightarrow> string option \<Rightarrow> string option \<Rightarrow> DomainLocale option" where
  "detectDomainLocale_spec nc_i18n hostname detectedLocale =
     (case nc_i18n of
        None \<Rightarrow> None
      | Some i18n \<Rightarrow>
          (case domains i18n of
             None \<Rightarrow> None
           | Some ds \<Rightarrow> find (domainMatches_spec hostname detectedLocale) ds))"

text \<open>
  The locale detector in the words of the specification: the fixed-locale path when
  detection is switched off, and otherwise the first defined signal in the order domain,
  cookie, header, default.
\<close>

fun firstDefined :: "'a option list \<Rightarrow> 'a \<Rightarrow> 'a" where
  "firstDefined [] fallback = fallback"
| "firstDefined (None # rest) fallback = firstDefined rest fallback"
| "firstDefined (Some v # rest) fallback = v"

definition detectLocale_reference ::
  "(string option \<Rightarrow> string list \<Rightarrow> string option) \<Rightarrow> i18nConfig option \<Rightarrow>
     InternalEvent \<Rightarrow> i18nConfig \<Rightarrow> string" where
  "detectLocale_reference acceptLanguage nc_i18n internalEvent i18n =
     (let domainLocale =
            detectDomainLocale_find nc_i18n (InternalEvent.headers internalEvent ''host'') None
      in if localeDetection i18n = Some False
         then (if domainLocale \<noteq> None then DomainLocale.defaultLocale (the domainLocale)
               else i18nConfig.defaultLocale i18n)
         else firstDefined
                [map_option DomainLocale.defaultLocale domainLocale,
                 getLocaleFromCookie nc_i18n (cookies internalEvent),
                 acceptLanguage (InternalEvent.headers internalEvent ''accept-language'')
                   (i18nConfig.locales i18n)]
                (i18nConfig.defaultLocale i18n))"

section \<open>Example configurations, requests and collaborators\<close>

definition exampleDomains :: "DomainLocale list" where
  "exampleDomains =
     [\<lparr>domain = ''a.com'', defaultLocale = ''en'', locales = None, http = None\<rparr>,
      \<lparr>domain = ''b.com'', defaultLocale = ''fr'', locales = Some [''fr''], http = None\<rparr>]"

definition exampleConfig :: i18nConfig where
  "exampleConfig =
     \<lparr>locales = [''en'', ''fr''], defaultLocale = ''en'', localeDetection = None,
      domains = Some exampleDomains\<rparr>"

definition mixedCaseConfig :: i18nConfig where
  "mixedCaseConfig =
     \<lparr>locales = [''en-US'', ''fr''], defaultLocale = ''en-US'', localeDetection = None,
      domains = None\<rparr>"

definition foreignDomainConfig :: i18nConfig where
  "foreignDomainConfig =
     \<lparr>locales = [''en''], defaultLocale = ''en'', localeDetection = None,
      domains = Some [\<lparr>domain = ''fr.example.com'', defaultLocale = ''fr'', locales = None,
                       http = None\<rparr>]\<rparr>"

definition exampleEvent :: InternalEvent where
  "exampleEvent =
     \<lparr>rawPath = ''/'', url = ''https://a.com'',
      headers = [''host'' \<mapsto> ''a.com'', ''accept-language'' \<mapsto> ''fr''],
      cookies = Map.empty\<rparr>"

definition plainEvent :: "string \<Rightarrow> InternalEvent" where
  "plainEvent path =
     \<lparr>rawPath = path, url = ''https://example.com'', headers = Map.empty,
      cookies = Map.empty\<rparr>"

text \<open>A Language Matcher that never finds a locale.\<close>

definition noLanguage :: "string option \<Rightarrow> string list \<Rightarrow> string option" where
  "noLanguage header supported = None"

text \<open>A Language Matcher that accepts a header value that is itself a supported locale.\<close>

definition exactLanguage :: "string option \<Rightarrow> string list \<Rightarrow> string option" where
  "exactLanguage header supported =
     (case header of None \<Rightarrow> None | Some v \<Rightarrow> find (\<lambda>l. l = v) supported)"

text \<open>A URL rewriter that appends the path to the URL.\<close>

definition prefixUrl :: "string \<Rightarrow> string \<Rightarrow> string" where
  "prefixUrl base path = base @ path"

section \<open>Splitting and the domain resolver\<close>

lemma js_split_not_Nil: "js_split sep s \<noteq> []"
  by (induction s) (auto split: list.splits)

lemma hd_js_split: "hd (js_split sep s) = takeWhile (\<lambda>c. c \<noteq> sep) s"
  by (induction s) (auto split: list.splits simp: js_split_not_Nil)

lemma length_js_split: "length (js_split sep s) = Suc (count_list s sep)"
  by (induction s) (auto split: list.splits simp: js_split_not_Nil)

lemma js_index_split_limit_1:
  "js_index (js_split_limit sep 1 s) 0 = Some (takeWhile (\<lambda>c. c \<noteq> sep) s)"
proof (cases "js_split sep s")
  case Nil
  then show ?thesis by (simp add: js_split_not_Nil)
next
  case (Cons w ws)
  then have "w = takeWhile (\<lambda>c. c \<noteq> sep) s"
    using hd_js_split [of sep s] by simp
  with Cons show ?thesis by (simp add: js_index_def js_split_limit_def)
qed

lemma js_index_split_1_None: "js_index (js_split sep s) 1 = None \<longleftrightarrow> sep \<notin> set s"
proof -
  have "count_list s sep = 0 \<longleftrightarrow> sep \<notin> set s"
    by (simp add: count_list_0_iff)
  then show ?thesis
    by (auto simp: js_index_def length_js_split)
qed

lemma js_index_split_1_prefixed:
  assumes "sep \<notin> set d"
  shows "js_index (js_split sep (sep # d @ sep # rest)) 1 = Some d"
proof -
  have "js_split sep (d @ sep # rest) ! 0 = hd (js_split sep (d @ sep # rest))"
    by (simp add: hd_conv_nth js_split_not_Nil)
  also have "\<dots> = d"
    using assms by (auto simp: hd_js_split takeWhile_tail [of "\<lambda>c. c \<noteq> sep"])
  finally show ?thesis
    by (simp add: js_index_def length_js_split)
qed

lemma domainHostname_defined:
  "js_index (js_split_limit CHR '':'' 1 d) 0 = Some (stripPort d)"
  unfolding stripPort_def by (rule js_index_split_limit_1)

lemma detectDomainLocale_loop_find:
  "detectDomainLocale_loop hostname (map_option toLowerCase detectedLocale) ds =
     Inr (find (domainMatches hostname detectedLocale) ds)"
proof (induction ds)
  case Nil
  show ?case by simp
next
  case (Cons entry rest)
  show ?case
  proof (cases "domainMatches hostname detectedLocale entry")
    case True
    then show ?thesis
      unfolding detectDomainLocale_loop.simps domainHostname_defined
      by (auto simp: domainMatches_def list_ex_iff split: option.splits)
  next
    case False
    then show ?thesis
      unfolding detectDomainLocale_loop.simps domainHostname_defined
      by (auto simp: domainMatches_def list_ex_iff Cons.IH split: option.splits)
  qed
qed

lemma detectDomainLocale_Inr:
  "detectDomainLocale nc_i18n hostname detectedLocale =
     Inr (detectDomainLocale_find nc_i18n hostname detectedLocale)"
  by (simp add: detectDomainLocale_def detectDomainLocale_find_def
        detectDomainLocale_loop_find split: option.splits)

lemma domainMatches_no_key: "\<not> domainMatches None None entry"
  by (simp add: domainMatches_def)

lemma detectDomainLocale_find_no_key: "detectDomainLocale_find nc_i18n None None = None"
  by (simp add: detectDomainLocale_find_def find_None_iff domainMatches_no_key
        split: option.splits)

lemma detectDomainLocale_find_in_domains:
  "detectDomainLocale_find (Some i18n) h l = Some d \<Longrightarrow>
     \<exists>ds. domains i18n = Some ds \<and> d \<in> set ds"
  by (auto simp: detectDomainLocale_find_def find_Some_iff split: option.splits)

lemma getLocaleFromCookie_in_locales:
  "getLocaleFromCookie (Some i18n) cks = Some l \<Longrightarrow> l \<in> set (i18nConfig.locales i18n)"
  by (auto simp: getLocaleFromCookie_def find_Some_iff split: option.splits if_splits)

section \<open>The locale detector\<close>

lemma detectLocale_Inr:
  "detectLocale acceptLanguage nc_i18n internalEvent i18n =
     Inr (detectLocale_reference acceptLanguage nc_i18n internalEvent i18n)"
proof (cases "detectDomainLocale_find nc_i18n (InternalEvent.headers internalEvent ''host'') None")
  case None
  then show ?thesis
    by (cases "getLocaleFromCookie nc_i18n (cookies internalEvent)";
        cases "acceptLanguage (InternalEvent.headers internalEvent ''accept-language'')
                 (i18nConfig.locales i18n)")
       (simp_all add: detectLocale_def detectLocale_reference_def detectDomainLocale_Inr
          nullish_def)
next
  case (Some d)
  then show ?thesis
    by (simp add: detectLocale_def detectLocale_reference_def detectDomainLocale_Inr
          nullish_def)
qed

text \<open>
  Claim C1. \<open>detectLocale\<close> is its reference definition: the domain is resolved by host
  name only; with \<open>localeDetection === false\<close> the result is the resolved domain's default
  locale, or else the configured default locale, whatever the cookies and the
  \<open>Accept-Language\<close> header hold (so that without a domain match it is exactly the
  configured default locale); otherwise it is the first defined value among the domain's
  default locale, the cookie locale, the header locale and the configured default locale.
\<close>

theorem detectLocale_precedence:
  "detectLocale acceptLanguage nc_i18n internalEvent i18n =
     Inr (detectLocale_reference acceptLanguage nc_i18n internalEvent i18n) \<and>
   (localeDetection i18n = Some False \<longrightarrow>
      detectLocale acceptLanguage' nc_i18n
        (internalEvent\<lparr>InternalEvent.headers :=
                         (InternalEvent.headers internalEvent)(''accept-language'' := header'),
                       cookies := cookies'\<rparr>) i18n =
      detectLocale acceptLanguage nc_i18n internalEvent i18n) \<and>
   (localeDetection i18n = Some False \<and>
    detectDomainLocale nc_i18n (InternalEvent.headers internalEvent ''host'') None = Inr None \<longrightarrow>
      detectLocale acceptLanguage nc_i18n internalEvent i18n =
        Inr (i18nConfig.defaultLocale i18n))"
proof (intro conjI impI)
  show "detectLocale acceptLanguage nc_i18n internalEvent i18n =
     Inr (detectLocale_reference acceptLanguage nc_i18n internalEvent i18n)"
    by (rule detectLocale_Inr)
next
  assume "localeDetection i18n = Some False"
  then show "detectLocale acceptLanguage' nc_i18n
        (internalEvent\<lparr>InternalEvent.headers :=
                         (InternalEvent.headers internalEvent)(''accept-language'' := header'),
                       cookies := cookies'\<rparr>) i18n =
      detectLocale acceptLanguage nc_i18n internalEvent i18n"
    by (simp add: detectLocale_def detectDomainLocale_Inr)
next
  assume "localeDetection i18n = Some False \<and>
    detectDomainLocale nc_i18n (InternalEvent.headers internalEvent ''host'') None = Inr None"
  then show "detectLocale acceptLanguage nc_i18n internalEvent i18n =
        Inr (i18nConfig.defaultLocale i18n)"
    by (simp add: detectLocale_def)
qed

text \<open>
  On a configuration without domains, a cookie \<open>FR\<close> wins over the header \<open>en\<close>, and
  with detection switched off the default locale \<open>en\<close> wins over the header \<open>fr\<close>.
\<close>

theorem detectLocale_precedence_witness:
  "detectLocale exactLanguage (Some (exampleConfig\<lparr>domains := None\<rparr>))
     (exampleEvent\<lparr>InternalEvent.headers := [''accept-language'' \<mapsto> ''en''],
                    cookies := [''NEXT_LOCALE'' \<mapsto> ''FR'']\<rparr>)
     (exampleConfig\<lparr>domains := None\<rparr>) = Inr ''fr'' \<and>
   detectLocale exactLanguage (Some (exampleConfig\<lparr>domains := None\<rparr>)) exampleEvent
     (exampleConfig\<lparr>domains := None, localeDetection := Some False\<rparr>) = Inr ''en''"
proof -
  let ?cfg = "exampleConfig\<lparr>domains := None\<rparr>"
  let ?off = "exampleConfig\<lparr>domains := None, localeDetection := Some False\<rparr>"
  let ?ev = "exampleEvent\<lparr>InternalEvent.headers := [''accept-language'' \<mapsto> ''en''],
                          cookies := [''NEXT_LOCALE'' \<mapsto> ''FR'']\<rparr>"
  have off: "localeDetection ?off = Some False"
    by simp
  have nodomain:
    "detectDomainLocale (Some ?cfg) (InternalEvent.headers exampleEvent ''host'') None = Inr None"
    by (simp add: detectDomainLocale_def exampleConfig_def)
  have "localeDetection ?off = Some False \<and>
      detectDomainLocale (Some ?cfg) (InternalEvent.headers exampleEvent ''host'') None =
        Inr None \<longrightarrow>
      detectLocale exactLanguage (Some ?cfg) exampleEvent ?off =
        Inr (i18nConfig.defaultLocale ?off)"
    using detectLocale_precedence [of exactLanguage "Some ?cfg" exampleEvent ?off] by blast
  with off nodomain have "detectLocale exactLanguage (Some ?cfg) exampleEvent ?off = Inr ''en''"
    by (simp add: exampleConfig_def)
  moreover have "detectLocale exactLanguage (Some ?cfg) ?ev ?cfg = Inr ''fr''"
    using detectLocale_precedence [of exactLanguage "Some ?cfg" ?ev ?cfg]
    by (simp add: detectLocale_reference_def detectDomainLocale_find_def
          getLocaleFromCookie_def exampleConfig_def exampleEvent_def
          toLowerCase_def toLowerCase_char_def)
  ultimately show ?thesis by simp
qed

section \<open>The domain resolver\<close>

text \<open>
  Claim C4, as the code has it. \<open>detectDomainLocale\<close> never raises and returns the first
  entry of the configured domain list, in configuration order, for which the host name,
  compared as it was passed (it is not lowercased), equals the entry's domain without
  its port and lowercased, or the lowercased locale equals the entry's lowercased default
  locale or one of the entry's lowercased locales; it returns \<open>undefined\<close> when i18n or the
  domain list is not configured or no entry matches. An entry is returned exactly when it
  matches and no entry listed before it does.
\<close>

theorem detectDomainLocale_first_match:
  "detectDomainLocale nc_i18n hostname detectedLocale =
     Inr (case nc_i18n of
            None \<Rightarrow> None
          | Some i18n \<Rightarrow>
              (case domains i18n of
                 None \<Rightarrow> None
               | Some ds \<Rightarrow> find (domainMatches hostname detectedLocale) ds)) \<and>
   (detectDomainLocale nc_i18n hostname detectedLocale = Inr (Some entry) \<longleftrightarrow>
      (\<exists>i18n ds i. nc_i18n = Some i18n \<and> domains i18n = Some ds \<and> i < length ds \<and>
         ds ! i = entry \<and> domainMatches hostname detectedLocale entry \<and>
         (\<forall>j<i. \<not> domainMatches hostname detectedLocale (ds ! j))))"
proof -
  have eq: "detectDomainLocale nc_i18n hostname detectedLocale =
      Inr (detectDomainLocale_find nc_i18n hostname detectedLocale)"
    by (rule detectDomainLocale_Inr)
  have first: "detectDomainLocale_find nc_i18n hostname detectedLocale = Some entry \<longleftrightarrow>
      (\<exists>i18n ds i. nc_i18n = Some i18n \<and> domains i18n = Some ds \<and> i < length ds \<and>
         ds ! i = entry \<and> domainMatches hostname detectedLocale entry \<and>
         (\<forall>j<i. \<not> domainMatches hostname detectedLocale (ds ! j)))"
    by (auto simp: detectDomainLocale_find_def find_Some_iff split: option.splits)
  from eq first show ?thesis
    by (simp add: detectDomainLocale_find_def)
qed

text \<open>
  The host \<open>b.com\<close> matches the second entry and the locale \<open>EN\<close> the first one: the
  first one is returned.
\<close>

theorem detectDomainLocale_first_match_witness:
  "detectDomainLocale (Some exampleConfig) (Some ''b.com'') (Some ''EN'') =
     Inr (Some \<lparr>domain = ''a.com'', defaultLocale = ''en'', locales = None, http = None\<rparr>)"
  using detectDomainLocale_first_match
    [of "Some exampleConfig" "Some ''b.com''" "Some ''EN''"
        "\<lparr>domain = ''a.com'', defaultLocale = ''en'', locales = None, http = None\<rparr>"]
  by (simp add: exampleConfig_def exampleDomains_def domainMatches_def stripPort_def
        toLowerCase_def toLowerCase_char_def)

text \<open>
  The host name is not lowercased: for the host \<open>A.COM\<close> the code finds no entry, where
  the resolver of the specification finds \<open>a.com\<close>.
\<close>

theorem detectDomainLocale_hostname_case_counterexample:
  "detectDomainLocale (Some exampleConfig) (Some ''A.COM'') None = Inr None \<and>
   detectDomainLocale_spec (Some exampleConfig) (Some ''A.COM'') None =
     Some \<lparr>domain = ''a.com'', defaultLocale = ''en'', locales = None, http = None\<rparr>"
  by (simp add: detectDomainLocale_def detectDomainLocale_spec_def
        domainMatches_spec_def stripPort_def exampleConfig_def exampleDomains_def
        js_index_def js_split_limit_def toLowerCase_def toLowerCase_char_def)

section \<open>The detected locale and the configured locales\<close>

text \<open>
  Claim C7, as the code has it. For every request, every i18n configuration whose
  default locale and whose domains' default locales are all members of \<open>locales\<close>, and
  every Language Matcher that answers with members of the supported locales only, the
  string returned by \<open>detectLocale\<close> is a member of \<open>locales\<close>.
\<close>

theorem detectLocale_in_locales:
  assumes "i18nConfig.defaultLocale i18n \<in> set (i18nConfig.locales i18n)"
    and "\<forall>ds. domains i18n = Some ds \<longrightarrow>
           (\<forall>d \<in> set ds. DomainLocale.defaultLocale d \<in> set (i18nConfig.locales i18n))"
    and "\<forall>header l. acceptLanguage header (i18nConfig.locales i18n) = Some l \<longrightarrow>
           l \<in> set (i18nConfig.locales i18n)"
  shows "\<exists>l. detectLocale acceptLanguage (Some i18n) internalEvent i18n = Inr l \<and>
           l \<in> set (i18nConfig.locales i18n) \<union> {i18nConfig.defaultLocale i18n}"
proof -
  let ?dom =
    "detectDomainLocale_find (Some i18n) (InternalEvent.headers internalEvent ''host'') None"
  let ?cookie = "getLocaleFromCookie (Some i18n) (cookies internalEvent)"
  let ?header = "acceptLanguage (InternalEvent.headers internalEvent ''accept-language'')
                   (i18nConfig.locales i18n)"
  have dom: "DomainLocale.defaultLocale d \<in> set (i18nConfig.locales i18n)"
    if "?dom = Some d" for d
    using that assms(2) detectDomainLocale_find_in_domains [of i18n _ None d] by blast
  have cookie: "l \<in> set (i18nConfig.locales i18n)" if "?cookie = Some l" for l
    using that by (rule getLocaleFromCookie_in_locales)
  have header: "l \<in> set (i18nConfig.locales i18n)" if "?header = Some l" for l
    using that assms(3) by blast
  have "detectLocale_reference acceptLanguage (Some i18n) internalEvent i18n
          \<in> set (i18nConfig.locales i18n)"
    using assms(1) dom cookie header
    by (cases ?dom; cases ?cookie; cases ?header)
       (simp_all add: detectLocale_reference_def Let_def)
  then show ?thesis
    by (simp add: detectLocale_Inr)
qed

theorem detectLocale_in_locales_witness:
  "\<exists>l. detectLocale exactLanguage (Some exampleConfig) exampleEvent exampleConfig = Inr l \<and>
        l \<in> {''en'', ''fr''}"
proof -
  have default: "i18nConfig.defaultLocale exampleConfig \<in> set (i18nConfig.locales exampleConfig)"
    by (simp add: exampleConfig_def)
  have doms: "\<forall>ds. domains exampleConfig = Some ds \<longrightarrow>
      (\<forall>d \<in> set ds. DomainLocale.defaultLocale d \<in> set (i18nConfig.locales exampleConfig))"
    by (simp add: exampleConfig_def exampleDomains_def)
  have matcher: "\<forall>header l. exactLanguage header (i18nConfig.locales exampleConfig) = Some l \<longrightarrow>
      l \<in> set (i18nConfig.locales exampleConfig)"
    by (auto simp: exactLanguage_def find_Some_iff split: option.splits)
  show ?thesis
    using detectLocale_in_locales
      [where acceptLanguage = exactLanguage and i18n = exampleConfig
         and internalEvent = exampleEvent, OF default doms matcher]
    by (simp add: exampleConfig_def)
qed

text \<open>
  A domain whose default locale \<open>fr\<close> is not among the configured locales: on its host
  the detected locale is \<open>fr\<close>, outside \<open>locales\<close>, although the configured default
  locale is a member.
\<close>

theorem detectLocale_foreign_domain_counterexample:
  "i18nConfig.defaultLocale foreignDomainConfig \<in> set (i18nConfig.locales foreignDomainConfig) \<and>
   detectLocale noLanguage (Some foreignDomainConfig)
     ((plainEvent ''/'')\<lparr>InternalEvent.headers := [''host'' \<mapsto> ''fr.example.com'']\<rparr>)
     foreignDomainConfig = Inr ''fr'' \<and>
   ''fr'' \<notin> set (i18nConfig.locales foreignDomainConfig) \<union>
             {i18nConfig.defaultLocale foreignDomainConfig}"
  by (simp add: detectLocale_def detectDomainLocale_def foreignDomainConfig_def plainEvent_def
        js_index_def js_split_limit_def toLowerCase_def toLowerCase_char_def
        getLocaleFromCookie_def noLanguage_def nullish_def)

section \<open>The redirect decision\<close>

text \<open>
  Claim C2. Past the entry checks of \<open>handleLocaleRedirect\<close> (i18n configured, locale
  detection not switched off, path \<open>/\<close>), when the lookup by host name and the lookup by
  preferred locale both resolve, and the two domains differ or the preferred locale is
  not the preferred domain's default locale, the result is a redirect to
  \<open>scheme://domain/segment\<close> of the preferred domain, with scheme \<open>http\<close> exactly when its
  \<open>http\<close> flag is set and an empty segment exactly when the preferred locale is its
  default locale. The result does not depend on the detected locale: the branch comes
  before the locale branch and suppresses it. In particular, with the domains \<open>a.com\<close>
  (default \<open>en\<close>) and \<open>b.com\<close> (default \<open>fr\<close>, locales \<open>fr\<close>), the host \<open>a.com\<close>, the
  path \<open>/\<close> and a header matched to \<open>fr\<close>, the result is a 307 redirect to
  \<open>https://b.com/\<close>.
\<close>

theorem domain_canonicalization_redirect:
  "(nc_i18n = Some i18n \<and> localeDetection i18n \<noteq> Some False \<and> rawPath internalEvent = ''/'' \<and>
    preferredLocale =
      acceptLanguage (InternalEvent.headers internalEvent ''accept-language'')
        (i18nConfig.locales i18n) \<and>
    detectDomainLocale nc_i18n (InternalEvent.headers internalEvent ''host'') None =
      Inr (Some domainLocale) \<and>
    detectDomainLocale nc_i18n None preferredLocale = Inr (Some preferredDomain) \<and>
    (DomainLocale.domain preferredDomain \<noteq> DomainLocale.domain domainLocale \<or>
     preferredLocale \<noteq> Some (DomainLocale.defaultLocale preferredDomain)) \<longrightarrow>
    (\<exists>l. preferredLocale = Some l \<and>
       handleLocaleRedirect acceptLanguage constructNextUrl nc_i18n internalEvent =
         Inr (Some \<lparr>type = ''core'', statusCode = 307,
                    headers =
                      [''Location'' \<mapsto>
                         (if http preferredDomain = Some True then ''http'' else ''https'') @
                         ''://'' @ DomainLocale.domain preferredDomain @ ''/'' @
                         (if l = DomainLocale.defaultLocale preferredDomain then '''' else l)],
                    body = [], isBase64Encoded = False\<rparr>))) \<and>
   (nc_i18n = Some i18n \<and> domains i18n = Some exampleDomains \<and>
    localeDetection i18n \<noteq> Some False \<and> rawPath internalEvent = ''/'' \<and>
    InternalEvent.headers internalEvent ''host'' = Some ''a.com'' \<and>
    acceptLanguage (InternalEvent.headers internalEvent ''accept-language'')
      (i18nConfig.locales i18n) = Some ''fr'' \<longrightarrow>
    handleLocaleRedirect acceptLanguage constructNextUrl nc_i18n internalEvent =
      Inr (Some \<lparr>type = ''core'', statusCode = 307,
                 headers = [''Location'' \<mapsto> ''https://b.com/''],
                 body = [], isBase64Encoded = False\<rparr>))"
proof (intro conjI impI)
  assume a: "nc_i18n = Some i18n \<and> localeDetection i18n \<noteq> Some False \<and>
    rawPath internalEvent = ''/'' \<and>
    preferredLocale =
      acceptLanguage (InternalEvent.headers internalEvent ''accept-language'')
        (i18nConfig.locales i18n) \<and>
    detectDomainLocale nc_i18n (InternalEvent.headers internalEvent ''host'') None =
      Inr (Some domainLocale) \<and>
    detectDomainLocale nc_i18n None preferredLocale = Inr (Some preferredDomain) \<and>
    (DomainLocale.domain preferredDomain \<noteq> DomainLocale.domain domainLocale \<or>
     preferredLocale \<noteq> Some (DomainLocale.defaultLocale preferredDomain))"
  then have pd: "detectDomainLocale nc_i18n None preferredLocale = Inr (Some preferredDomain)"
    by blast
  have "preferredLocale \<noteq> None"
  proof
    assume "preferredLocale = None"
    with pd show False
      by (simp add: detectDomainLocale_Inr detectDomainLocale_find_no_key)
  qed
  then obtain l where l: "preferredLocale = Some l"
    by auto
  have "handleLocaleRedirect acceptLanguage constructNextUrl nc_i18n internalEvent =
         Inr (Some \<lparr>type = ''core'', statusCode = 307,
                    headers =
                      [''Location'' \<mapsto>
                         (if http preferredDomain = Some True then ''http'' else ''https'') @
                         ''://'' @ DomainLocale.domain preferredDomain @ ''/'' @
                         (if l = DomainLocale.defaultLocale preferredDomain then '''' else l)],
                    body = [], isBase64Encoded = False\<rparr>)"
  proof -
    from a l have al: "acceptLanguage (InternalEvent.headers internalEvent ''accept-language'')
        (i18nConfig.locales i18n) = Some l"
      by simp
    from a have gate: "nc_i18n = Some i18n" "localeDetection i18n \<noteq> Some False"
        "rawPath internalEvent = ''/''"
      by simp_all
    from a have dl:
      "detectDomainLocale nc_i18n (InternalEvent.headers internalEvent ''host'') None =
         Inr (Some domainLocale)"
      by blast
    from a l have differ:
      "DomainLocale.domain preferredDomain \<noteq> DomainLocale.domain domainLocale \<or>
       l \<noteq> DomainLocale.defaultLocale preferredDomain"
      by auto
    from pd l gate have pd':
      "detectDomainLocale (Some i18n) None (Some l) = Inr (Some preferredDomain)"
      by simp
    from dl gate have dl':
      "detectDomainLocale (Some i18n) (InternalEvent.headers internalEvent ''host'') None =
         Inr (Some domainLocale)"
      by simp
    show ?thesis
      using differ
      by (auto simp: handleLocaleRedirect_def gate al pd' dl' detectLocale_Inr js_template_def
            emptyReadableStream_def)
  qed
  with l show "\<exists>l. preferredLocale = Some l \<and>
       handleLocaleRedirect acceptLanguage constructNextUrl nc_i18n internalEvent =
         Inr (Some \<lparr>type = ''core'', statusCode = 307,
                    headers =
                      [''Location'' \<mapsto>
                         (if http preferredDomain = Some True then ''http'' else ''https'') @
                         ''://'' @ DomainLocale.domain preferredDomain @ ''/'' @
                         (if l = DomainLocale.defaultLocale preferredDomain then '''' else l)],
                    body = [], isBase64Encoded = False\<rparr>)"
    by blast
next
  assume "nc_i18n = Some i18n \<and> domains i18n = Some exampleDomains \<and>
    localeDetection i18n \<noteq> Some False \<and> rawPath internalEvent = ''/'' \<and>
    InternalEvent.headers internalEvent ''host'' = Some ''a.com'' \<and>
    acceptLanguage (InternalEvent.headers internalEvent ''accept-language'')
      (i18nConfig.locales i18n) = Some ''fr''"
  then show "handleLocaleRedirect acceptLanguage constructNextUrl nc_i18n internalEvent =
      Inr (Some \<lparr>type = ''core'', statusCode = 307,
                 headers = [''Location'' \<mapsto> ''https://b.com/''],
                 body = [], isBase64Encoded = False\<rparr>)"
    by (simp add: handleLocaleRedirect_def detectLocale_Inr detectDomainLocale_Inr
          detectDomainLocale_find_def domainMatches_def stripPort_def exampleDomains_def
          toLowerCase_def toLowerCase_char_def js_template_def emptyReadableStream_def)
qed

text \<open>
  The example of the claim, from the general statement: the host \<open>a.com\<close> resolves to
  the first entry, the preferred locale \<open>fr\<close> to the second one.
\<close>

theorem domain_canonicalization_redirect_witness:
  "detectDomainLocale (Some exampleConfig) (InternalEvent.headers exampleEvent ''host'') None =
     Inr (Some \<lparr>domain = ''a.com'', defaultLocale = ''en'', locales = None, http = None\<rparr>) \<and>
   detectDomainLocale (Some exampleConfig) None (Some ''fr'') =
     Inr (Some \<lparr>domain = ''b.com'', defaultLocale = ''fr'', locales = Some [''fr''],
                http = None\<rparr>) \<and>
   handleLocaleRedirect exactLanguage prefixUrl (Some exampleConfig) exampleEvent =
     Inr (Some \<lparr>type = ''core'', statusCode = 307,
                headers = [''Location'' \<mapsto> ''https://b.com/''],
                body = [], isBase64Encoded = False\<rparr>)"
proof -
  let ?a = "\<lparr>domain = ''a.com'', defaultLocale = ''en'', locales = None, http = None\<rparr>"
  let ?b = "\<lparr>domain = ''b.com'', defaultLocale = ''fr'', locales = Some [''fr''],
             http = None\<rparr>"
  have gate: "Some exampleConfig = Some exampleConfig"
      "localeDetection exampleConfig \<noteq> Some False" "rawPath exampleEvent = ''/''"
    by (simp_all add: exampleConfig_def exampleEvent_def)
  have pl: "Some ''fr'' =
      exactLanguage (InternalEvent.headers exampleEvent ''accept-language'')
        (i18nConfig.locales exampleConfig)"
    by (simp add: exampleConfig_def exampleEvent_def exactLanguage_def)
  have dl: "detectDomainLocale (Some exampleConfig)
      (InternalEvent.headers exampleEvent ''host'') None = Inr (Some ?a)"
    by (simp add: detectDomainLocale_def exampleConfig_def exampleDomains_def exampleEvent_def
          js_index_def js_split_limit_def toLowerCase_def toLowerCase_char_def)
  have pd: "detectDomainLocale (Some exampleConfig) None (Some ''fr'') = Inr (Some ?b)"
    by (simp add: detectDomainLocale_def exampleConfig_def exampleDomains_def
          js_index_def js_split_limit_def toLowerCase_def toLowerCase_char_def)
  have differ: "DomainLocale.domain ?b \<noteq> DomainLocale.domain ?a \<or>
      Some ''fr'' \<noteq> Some (DomainLocale.defaultLocale ?b)"
    by simp
  have "\<exists>l. Some ''fr'' = Some l \<and>
       handleLocaleRedirect exactLanguage prefixUrl (Some exampleConfig) exampleEvent =
         Inr (Some \<lparr>type = ''core'', statusCode = 307,
                    headers =
                      [''Location'' \<mapsto>
                         (if http ?b = Some True then ''http'' else ''https'') @
                         ''://'' @ DomainLocale.domain ?b @ ''/'' @
                         (if l = DomainLocale.defaultLocale ?b then '''' else l)],
                    body = [], isBase64Encoded = False\<rparr>)"
    using domain_canonicalization_redirect
      [where nc_i18n = "Some exampleConfig" and i18n = exampleConfig
         and internalEvent = exampleEvent and preferredLocale = "Some ''fr''"
         and acceptLanguage = exactLanguage and domainLocale = ?a and preferredDomain = ?b
         and constructNextUrl = prefixUrl]
      gate pl dl pd differ
    by blast
  then have "handleLocaleRedirect exactLanguage prefixUrl (Some exampleConfig) exampleEvent =
     Inr (Some \<lparr>type = ''core'', statusCode = 307,
                headers = [''Location'' \<mapsto> ''https://b.com/''],
                body = [], isBase64Encoded = False\<rparr>)"
    by simp
  with dl pd show ?thesis
    by simp
qed

text \<open>
  Claim C3. Every redirect returned by \<open>handleLocaleRedirect\<close>, from the domain branch or
  from the locale branch, is the object with type \<open>core\<close>, status code 307, headers
  holding exactly a \<open>Location\<close> string, an empty body and \<open>isBase64Encoded\<close> false.
\<close>

theorem redirect_wire_shape:
  "handleLocaleRedirect acceptLanguage constructNextUrl nc_i18n internalEvent =
     Inr (Some result) \<Longrightarrow>
   \<exists>location. result = \<lparr>type = ''core'', statusCode = 307,
                          headers = [''Location'' \<mapsto> location],
                          body = [], isBase64Encoded = False\<rparr>"
  by (auto simp: handleLocaleRedirect_def detectLocale_Inr detectDomainLocale_Inr
        emptyReadableStream_def Let_def split: option.splits if_splits)

text \<open>
  A redirect of the domain branch (host \<open>a.com\<close>, header \<open>fr\<close>) and one of the locale
  branch (a host outside the configured domains, header \<open>fr\<close>).
\<close>

theorem redirect_wire_shape_witness:
  "(\<exists>result location.
      handleLocaleRedirect exactLanguage prefixUrl (Some exampleConfig) exampleEvent =
        Inr (Some result) \<and>
      InternalResult.headers result ''Location'' = Some ''https://b.com/'' \<and>
      result = \<lparr>type = ''core'', statusCode = 307, headers = [''Location'' \<mapsto> location],
                body = [], isBase64Encoded = False\<rparr>) \<and>
   (\<exists>result location.
      handleLocaleRedirect exactLanguage prefixUrl (Some (exampleConfig\<lparr>domains := None\<rparr>))
        exampleEvent = Inr (Some result) \<and>
      InternalResult.headers result ''Location'' = Some ''https://a.com/fr'' \<and>
      result = \<lparr>type = ''core'', statusCode = 307, headers = [''Location'' \<mapsto> location],
                body = [], isBase64Encoded = False\<rparr>)"
proof -
  let ?byDomain = "\<lparr>type = ''core'', statusCode = 307,
      headers = [''Location'' \<mapsto> ''https://b.com/''], body = [], isBase64Encoded = False\<rparr>"
  let ?byLocale = "\<lparr>type = ''core'', statusCode = 307,
      headers = [''Location'' \<mapsto> ''https://a.com/fr''], body = [], isBase64Encoded = False\<rparr>"
  have d: "handleLocaleRedirect exactLanguage prefixUrl (Some exampleConfig) exampleEvent =
      Inr (Some ?byDomain)"
    by (simp add: handleLocaleRedirect_def detectLocale_def detectDomainLocale_def
          getLocaleFromCookie_def nullish_def exampleConfig_def exampleDomains_def
          exampleEvent_def exactLanguage_def prefixUrl_def js_index_def js_split_limit_def
          js_template_def toLowerCase_def toLowerCase_char_def emptyReadableStream_def)
  have l: "handleLocaleRedirect exactLanguage prefixUrl (Some (exampleConfig\<lparr>domains := None\<rparr>))
      exampleEvent = Inr (Some ?byLocale)"
    by (simp add: handleLocaleRedirect_def detectLocale_def detectDomainLocale_def
          getLocaleFromCookie_def nullish_def exampleConfig_def
          exampleEvent_def exactLanguage_def prefixUrl_def
          toLowerCase_def toLowerCase_char_def emptyReadableStream_def)
  from redirect_wire_shape [OF d] d have "\<exists>result location.
      handleLocaleRedirect exactLanguage prefixUrl (Some exampleConfig) exampleEvent =
        Inr (Some result) \<and>
      InternalResult.headers result ''Location'' = Some ''https://b.com/'' \<and>
      result = \<lparr>type = ''core'', statusCode = 307, headers = [''Location'' \<mapsto> location],
                body = [], isBase64Encoded = False\<rparr>"
    by auto
  moreover from redirect_wire_shape [OF l] l have "\<exists>result location.
      handleLocaleRedirect exactLanguage prefixUrl (Some (exampleConfig\<lparr>domains := None\<rparr>))
        exampleEvent = Inr (Some result) \<and>
      InternalResult.headers result ''Location'' = Some ''https://a.com/fr'' \<and>
      result = \<lparr>type = ''core'', statusCode = 307, headers = [''Location'' \<mapsto> location],
                body = [], isBase64Encoded = False\<rparr>"
    by auto
  ultimately show ?thesis
    by blast
qed

text \<open>
  Claim C10. A locale-keyed domain lookup with an undefined locale matches no entry.
  Hence, when the Language Matcher finds no preferred locale for the request, the domain
  branch is not taken: \<open>handleLocaleRedirect\<close> returns \<open>false\<close> or the redirect of the
  locale branch, whose \<open>Location\<close> is the current URL rewritten with the detected locale,
  a defined string.
\<close>

theorem no_preferred_locale_no_domain_redirect:
  "detectDomainLocale nc_i18n None None = Inr None \<and>
   (nc_i18n = Some i18n \<and>
    acceptLanguage (InternalEvent.headers internalEvent ''accept-language'')
      (i18nConfig.locales i18n) = None \<longrightarrow>
    (\<exists>detectedLocale.
       detectLocale acceptLanguage nc_i18n internalEvent i18n = Inr detectedLocale \<and>
       (handleLocaleRedirect acceptLanguage constructNextUrl nc_i18n internalEvent = Inr None \<or>
        handleLocaleRedirect acceptLanguage constructNextUrl nc_i18n internalEvent =
          Inr (Some \<lparr>type = ''core'', statusCode = 307,
                     headers =
                       [''Location'' \<mapsto>
                          constructNextUrl (url internalEvent) (''/'' @ detectedLocale)],
                     body = [], isBase64Encoded = False\<rparr>))))"
  by (auto simp: handleLocaleRedirect_def detectLocale_Inr detectDomainLocale_Inr
        detectDomainLocale_find_no_key emptyReadableStream_def Let_def
        split: option.splits)

text \<open>
  Without an \<open>Accept-Language\<close> header and with the cookie \<open>fr\<close>, on a host outside the
  configured domains: the redirect goes to the current URL with the prefix \<open>/fr\<close>.
\<close>

theorem no_preferred_locale_no_domain_redirect_witness:
  "exactLanguage
     (InternalEvent.headers ((plainEvent ''/'')\<lparr>cookies := [''NEXT_LOCALE'' \<mapsto> ''fr'']\<rparr>)
        ''accept-language'')
     (i18nConfig.locales exampleConfig) = None \<and>
   detectLocale exactLanguage (Some exampleConfig)
     ((plainEvent ''/'')\<lparr>cookies := [''NEXT_LOCALE'' \<mapsto> ''fr'']\<rparr>) exampleConfig = Inr ''fr'' \<and>
   (handleLocaleRedirect exactLanguage prefixUrl (Some exampleConfig)
      ((plainEvent ''/'')\<lparr>cookies := [''NEXT_LOCALE'' \<mapsto> ''fr'']\<rparr>) = Inr None \<or>
    handleLocaleRedirect exactLanguage prefixUrl (Some exampleConfig)
      ((plainEvent ''/'')\<lparr>cookies := [''NEXT_LOCALE'' \<mapsto> ''fr'']\<rparr>) =
      Inr (Some \<lparr>type = ''core'', statusCode = 307,
                 headers = [''Location'' \<mapsto> ''https://example.com/fr''],
                 body = [], isBase64Encoded = False\<rparr>))"
proof -
  let ?ev = "(plainEvent ''/'')\<lparr>cookies := [''NEXT_LOCALE'' \<mapsto> ''fr'']\<rparr>"
  have none: "exactLanguage (InternalEvent.headers ?ev ''accept-language'')
      (i18nConfig.locales exampleConfig) = None"
    by (simp add: plainEvent_def exactLanguage_def)
  have detected: "detectLocale exactLanguage (Some exampleConfig) ?ev exampleConfig = Inr ''fr''"
    by (simp add: detectLocale_def detectDomainLocale_def getLocaleFromCookie_def nullish_def
          exampleConfig_def exampleDomains_def plainEvent_def exactLanguage_def
          js_index_def js_split_limit_def toLowerCase_def toLowerCase_char_def)
  have url: "prefixUrl (url ?ev) (''/'' @ ''fr'') = ''https://example.com/fr''"
    by (simp add: prefixUrl_def plainEvent_def)
  show ?thesis
    using no_preferred_locale_no_domain_redirect
      [where nc_i18n = "Some exampleConfig" and i18n = exampleConfig
         and acceptLanguage = exactLanguage and internalEvent = ?ev
         and constructNextUrl = prefixUrl]
      none detected url
    by auto
qed

section \<open>Passing requests through\<close>

text \<open>
  Claim C5. Without an i18n configuration \<open>localizePath\<close> returns the raw path unchanged
  and \<open>handleLocaleRedirect\<close> returns \<open>false\<close>; and \<open>handleLocaleRedirect\<close> returns
  \<open>false\<close> whenever i18n is not configured, or \<open>localeDetection\<close> is \<open>false\<close>, or the raw
  path is not exactly \<open>/\<close>.
\<close>

theorem unconfigured_or_gated_is_passthrough:
  "(nc_i18n = None \<longrightarrow>
      localizePath acceptLanguage nc_i18n internalEvent = Inr (rawPath internalEvent) \<and>
      handleLocaleRedirect acceptLanguage constructNextUrl nc_i18n internalEvent = Inr None) \<and>
   (nc_i18n = None \<or>
    (\<exists>i18n. nc_i18n = Some i18n \<and> localeDetection i18n = Some False) \<or>
    rawPath internalEvent \<noteq> ''/'' \<longrightarrow>
      handleLocaleRedirect acceptLanguage constructNextUrl nc_i18n internalEvent = Inr None)"
  by (auto simp: localizePath_def handleLocaleRedirect_def split: option.splits)

theorem unconfigured_or_gated_is_passthrough_witness:
  "localizePath exactLanguage None (exampleEvent\<lparr>rawPath := ''/about''\<rparr>) = Inr ''/about'' \<and>
   handleLocaleRedirect exactLanguage prefixUrl None (exampleEvent\<lparr>rawPath := ''/about''\<rparr>) =
     Inr None \<and>
   handleLocaleRedirect exactLanguage prefixUrl (Some exampleConfig)
     (exampleEvent\<lparr>rawPath := ''/about''\<rparr>) = Inr None \<and>
   handleLocaleRedirect exactLanguage prefixUrl
     (Some (exampleConfig\<lparr>localeDetection := Some False\<rparr>)) exampleEvent = Inr None"
  using unconfigured_or_gated_is_passthrough
      [of None exactLanguage "exampleEvent\<lparr>rawPath := ''/about''\<rparr>" prefixUrl]
    unconfigured_or_gated_is_passthrough
      [of "Some exampleConfig" exactLanguage "exampleEvent\<lparr>rawPath := ''/about''\<rparr>" prefixUrl]
    unconfigured_or_gated_is_passthrough
      [of "Some (exampleConfig\<lparr>localeDetection := Some False\<rparr>)" exactLanguage exampleEvent
          prefixUrl]
  by (simp add: exampleEvent_def)

section \<open>Faults\<close>

text \<open>
  Claim C6, as the code has it. With collaborators that return, \<open>detectDomainLocale\<close>,
  \<open>detectLocale\<close> and \<open>handleLocaleRedirect\<close> return a defined output on every input,
  and \<open>localizePath\<close> returns a string exactly when i18n is not configured or the raw path
  contains a \<open>/\<close>, as every path that starts with \<open>/\<close> does.
\<close>

theorem router_total_on_slash_paths:
  "(\<exists>r. detectDomainLocale nc_i18n hostname detectedLocale = Inr r) \<and>
   (\<exists>l. detectLocale acceptLanguage nc_i18n internalEvent i18n = Inr l) \<and>
   (\<exists>r. handleLocaleRedirect acceptLanguage constructNextUrl nc_i18n internalEvent = Inr r) \<and>
   ((\<exists>p. localizePath acceptLanguage nc_i18n internalEvent = Inr p) \<longleftrightarrow>
      nc_i18n = None \<or> CHR ''/'' \<in> set (rawPath internalEvent))"
proof (intro conjI)
  show "\<exists>r. detectDomainLocale nc_i18n hostname detectedLocale = Inr r"
    by (simp add: detectDomainLocale_Inr)
  show "\<exists>l. detectLocale acceptLanguage nc_i18n internalEvent i18n = Inr l"
    by (simp add: detectLocale_Inr)
  show "\<exists>r. handleLocaleRedirect acceptLanguage constructNextUrl nc_i18n internalEvent = Inr r"
    by (simp add: handleLocaleRedirect_def detectLocale_Inr detectDomainLocale_Inr Let_def
          split: option.splits)
  show "(\<exists>p. localizePath acceptLanguage nc_i18n internalEvent = Inr p) \<longleftrightarrow>
      nc_i18n = None \<or> CHR ''/'' \<in> set (rawPath internalEvent)"
  proof (cases nc_i18n)
    case None
    then show ?thesis by (simp add: localizePath_def)
  next
    case (Some cfg)
    show ?thesis
    proof (cases "js_index (js_split CHR ''/'' (rawPath internalEvent)) 1")
      case None
      then have "CHR ''/'' \<notin> set (rawPath internalEvent)"
        using js_index_split_1_None [of "CHR ''/''" "rawPath internalEvent"] by simp
      with None Some show ?thesis
        by (simp add: localizePath_def isLocalizedPath_def)
    next
      case (Some segment)
      then have "CHR ''/'' \<in> set (rawPath internalEvent)"
        using js_index_split_1_None [of "CHR ''/''" "rawPath internalEvent"] by auto
      with Some \<open>nc_i18n = Some cfg\<close> show ?thesis
        by (simp add: localizePath_def isLocalizedPath_def detectLocale_Inr)
    qed
  qed
qed

theorem router_total_on_slash_paths_witness:
  "(\<exists>r. detectDomainLocale (Some exampleConfig) None (Some ''fr'') = Inr r) \<and>
   (\<exists>l. detectLocale exactLanguage (Some exampleConfig) (plainEvent ''/about'') exampleConfig =
      Inr l) \<and>
   (\<exists>r. handleLocaleRedirect exactLanguage prefixUrl (Some exampleConfig)
      (plainEvent ''/about'') = Inr r) \<and>
   (\<exists>p. localizePath exactLanguage (Some exampleConfig) (plainEvent ''/about'') = Inr p)"
  using router_total_on_slash_paths
    [where nc_i18n = "Some exampleConfig" and hostname = None and detectedLocale = "Some ''fr''"
       and acceptLanguage = exactLanguage and internalEvent = "plainEvent ''/about''"
       and i18n = exampleConfig and constructNextUrl = prefixUrl]
  by (simp add: plainEvent_def)

text \<open>
  On a configured i18n, a raw path without \<open>/\<close> makes \<open>localizePath\<close> raise: the second
  piece of the split path is \<open>undefined\<close>.
\<close>

theorem localizePath_no_slash_counterexample:
  "localizePath noLanguage (Some exampleConfig) (plainEvent '''') = Inl TypeError"
  by (simp add: localizePath_def isLocalizedPath_def plainEvent_def js_index_def)

section \<open>Localized paths\<close>

text \<open>
  Claim C8, at a configuration with the locale \<open>en-US\<close>. \<open>isLocalizedPath\<close> lowercases
  the path segment and looks it up among the locales as they are configured: the path
  \<open>/en-US/about\<close> is not recognised and \<open>localizePath\<close> prefixes it again, while
  \<open>/FR/about\<close> is recognised through the lowercase locale \<open>fr\<close>.
\<close>

theorem isLocalizedPath_mixed_case_locale:
  "isLocalizedPath (Some mixedCaseConfig) ''/en-US/about'' = Inr False \<and>
   localizePath noLanguage (Some mixedCaseConfig) (plainEvent ''/en-US/about'') =
     Inr ''/en-US/en-US/about'' \<and>
   isLocalizedPath (Some mixedCaseConfig) ''/FR/about'' = Inr True"
  by (simp add: localizePath_def isLocalizedPath_def mixedCaseConfig_def plainEvent_def
        js_index_def toLowerCase_def toLowerCase_char_def detectLocale_def
        detectDomainLocale_def getLocaleFromCookie_def noLanguage_def nullish_def)

text \<open>
  Claim C9, at the same configuration. The output \<open>/en-US/about\<close> of \<open>localizePath\<close> on
  \<open>/about\<close> is not recognised as localized, and a second application prefixes it again.
\<close>

theorem localizePath_twice_mixed_case_locale:
  "localizePath noLanguage (Some mixedCaseConfig) (plainEvent ''/about'') =
     Inr ''/en-US/about'' \<and>
   localizePath noLanguage (Some mixedCaseConfig)
     ((plainEvent ''/about'')\<lparr>rawPath := ''/en-US/about''\<rparr>) = Inr ''/en-US/en-US/about''"
  by (simp add: localizePath_def isLocalizedPath_def mixedCaseConfig_def plainEvent_def
        js_index_def toLowerCase_def toLowerCase_char_def detectLocale_def
        detectDomainLocale_def getLocaleFromCookie_def noLanguage_def nullish_def)

text \<open>
  Where the detected locale, lowercased, is a configured locale and holds no \<open>/\<close>, a
  second application of \<open>localizePath\<close> to a path that starts with \<open>/\<close> changes nothing.
\<close>

lemma localizePath_idempotent_when_recognised:
  assumes once: "localizePath acceptLanguage nc_i18n internalEvent = Inr p"
    and slash: "rawPath internalEvent = CHR ''/'' # rest"
    and recognised: "\<forall>i18n l. nc_i18n = Some i18n \<and>
            detectLocale acceptLanguage nc_i18n internalEvent i18n = Inr l \<longrightarrow>
            toLowerCase l \<in> set (i18nConfig.locales i18n) \<and> CHR ''/'' \<notin> set l"
  shows "localizePath acceptLanguage nc_i18n (internalEvent\<lparr>rawPath := p\<rparr>) = Inr p"
proof (cases nc_i18n)
  case None
  then show ?thesis by (simp add: localizePath_def)
next
  case (Some i18n)
  obtain localized where loc: "isLocalizedPath nc_i18n (rawPath internalEvent) = Inr localized"
    using once Some by (auto simp: localizePath_def split: sum.splits)
  show ?thesis
  proof (cases localized)
    case True
    with once Some loc have "p = rawPath internalEvent"
      by (simp add: localizePath_def)
    with True Some loc show ?thesis
      by (simp add: localizePath_def)
  next
    case False
    let ?l = "detectLocale_reference acceptLanguage nc_i18n internalEvent i18n"
    from False once Some loc have p: "p = CHR ''/'' # ?l @ CHR ''/'' # rest"
      by (simp add: localizePath_def detectLocale_Inr slash)
    from recognised Some have ok: "toLowerCase ?l \<in> set (i18nConfig.locales i18n)"
        "CHR ''/'' \<notin> set ?l"
      by (simp_all add: detectLocale_Inr)
    have "js_index (js_split CHR ''/'' p) 1 = Some ?l"
      unfolding p using ok(2) by (rule js_index_split_1_prefixed)
    then have "isLocalizedPath nc_i18n p = Inr True"
      using ok(1) Some by (simp add: isLocalizedPath_def)
    with Some show ?thesis
      by (simp add: localizePath_def)
  qed
qed

end
